theory Spec2Isabelle
  imports Main
begin

section \<open>Strings\<close>

text \<open>
  A Python \<open>str\<close> is modelled as a \<open>string\<close>, one \<open>char\<close> per code point; the model
  covers the code points below 256. \<open>str.strip()\<close> removes the leading and trailing
  characters for which \<open>str.isspace\<close> holds; below 256 these are the code points
  9 to 13, 28 to 32, 0x85 and 0xA0.
\<close>

definition isspace :: "char \<Rightarrow> bool" where
  "isspace ch = (ch \<in> set [CHR 0x09, CHR 0x0A, CHR 0x0B, CHR 0x0C, CHR 0x0D,
                            CHR 0x1C, CHR 0x1D, CHR 0x1E, CHR 0x1F, CHR 0x20,
                            CHR 0x85, CHR 0xA0])"

definition strip :: "string \<Rightarrow> string" where
  "strip s = rev (dropWhile isspace (rev (dropWhile isspace s)))"

text \<open>\<open>sep.join(parts)\<close>.\<close>

fun join :: "string \<Rightarrow> string list \<Rightarrow> string" where
  "join sep [] = []"
| "join sep [p] = p"
| "join sep (p # q # ps) = p @ sep @ join sep (q # ps)"

text \<open>\<open>s.replace(old, new)\<close> for a pattern \<open>old\<close> of one character.\<close>

definition replace_char :: "char \<Rightarrow> string \<Rightarrow> string \<Rightarrow> string" where
  "replace_char old new s = concat (map (\<lambda>ch. if ch = old then new else [ch]) s)"

section \<open>The configuration\<close>

text \<open>
  The fields of \<open>ClaudeGUI\<close> that \<open>_build_command\<close> and \<open>_launch_claude\<close> read, under
  the names of \<open>_init_variables\<close>. A \<open>tk.StringVar\<close> holds a string, a \<open>tk.BooleanVar\<close>
  a boolean; \<open>plugin_dirs\<close> and \<open>add_dirs\<close> are Python lists. A field named
  \<open>..._text\<close> is a text widget and holds what \<open>widget.get("1.0", tk.END)\<close> returns
  (for an empty widget, Tk returns a single newline).
\<close>

record config =
  claude_path_var :: string
  working_dir_var :: string
  prompt_var :: string
  model_var :: string
  fallback_model_var :: string
  continue_var :: bool
  resume_var :: string
  fork_session_var :: bool
  session_id_var :: string
  agent_var :: string
  agents_json_text :: string
  tools_text :: string
  allowed_tools_var :: string
  disallowed_tools_var :: string
  disable_slash_commands_var :: bool
  system_prompt_text :: string
  append_prompt_text :: string
  print_mode_var :: bool
  input_format_var :: string
  output_format_var :: string
  json_schema_text :: string
  include_partial_var :: bool
  replay_user_var :: bool
  mcp_config_var :: string
  strict_mcp_var :: bool
  plugin_dirs :: "string list"
  permission_mode_var :: string
  allow_skip_perms_var :: bool
  skip_perms_var :: bool
  add_dirs :: "string list"
  file_specs_var :: string
  max_budget_var :: string
  debug_var :: string
  debug_file_var :: string
  verbose_var :: bool
  chrome_var :: string
  ide_var :: bool
  settings_var :: string
  setting_user_var :: bool
  setting_project_var :: bool
  setting_local_var :: bool
  betas_var :: string
  no_session_persistence_var :: bool

section \<open>\<open>_build_command\<close>\<close>

text \<open>
  The three shapes of statement in \<open>_build_command\<close>:
  \<open>if v: cmd.extend([flag, v])\<close>, \<open>if b: cmd.append(flag)\<close> and
  \<open>for d in ds: cmd.extend([flag, d])\<close>. An empty Python string is falsy.
\<close>

definition extend_if :: "string \<Rightarrow> string \<Rightarrow> string list" where
  "extend_if flag v = (if v \<noteq> [] then [flag, v] else [])"

definition append_if :: "bool \<Rightarrow> string \<Rightarrow> string list" where
  "append_if b flag = (if b then [flag] else [])"

definition extend_each :: "string \<Rightarrow> string list \<Rightarrow> string list" where
  "extend_each flag ds = concat (map (\<lambda>d. [flag, d]) ds)"

text \<open>The \<open>sources\<close> list of \<open>_build_command\<close>.\<close>

definition setting_sources :: "config \<Rightarrow> string list" where
  "setting_sources c =
     append_if (setting_user_var c) ''user''
     @ append_if (setting_project_var c) ''project''
     @ append_if (setting_local_var c) ''local''"

text \<open>
  \<open>_build_command\<close>: \<open>cmd\<close> starts as \<open>[claude_path]\<close> and each statement extends it;
  the result is the concatenation of the pieces, one list element per statement of the
  source, in the source's order.
\<close>

definition build_command :: "config \<Rightarrow> string list" where
  "build_command c = concat
     [ [if claude_path_var c \<noteq> [] then claude_path_var c else ''claude''],
       extend_if ''--model'' (model_var c),
       extend_if ''--fallback-model'' (fallback_model_var c),
       append_if (continue_var c) ''-c'',
       extend_if ''-r'' (resume_var c),
       append_if (fork_session_var c) ''--fork-session'',
       extend_if ''--session-id'' (session_id_var c),
       extend_if ''--agent'' (agent_var c),
       extend_if ''--agents'' (strip (agents_json_text c)),
       extend_if ''--tools'' (strip (tools_text c)),
       extend_if ''--allowedTools'' (allowed_tools_var c),
       extend_if ''--disallowedTools'' (disallowed_tools_var c),
       append_if (disable_slash_commands_var c) ''--disable-slash-commands'',
       extend_if ''--system-prompt'' (strip (system_prompt_text c)),
       extend_if ''--append-system-prompt'' (strip (append_prompt_text c)),
       append_if (print_mode_var c) ''-p'',
       (if input_format_var c \<noteq> ''text''
        then [''--input-format'', input_format_var c] else []),
       (if output_format_var c \<noteq> ''text''
        then [''--output-format'', output_format_var c] else []),
       extend_if ''--json-schema'' (strip (json_schema_text c)),
       append_if (include_partial_var c) ''--include-partial-messages'',
       append_if (replay_user_var c) ''--replay-user-messages'',
       extend_if ''--mcp-config'' (mcp_config_var c),
       append_if (strict_mcp_var c) ''--strict-mcp-config'',
       extend_each ''--plugin-dir'' (plugin_dirs c),
       (if permission_mode_var c \<noteq> ''default''
        then [''--permission-mode'', permission_mode_var c] else []),
       append_if (allow_skip_perms_var c) ''--allow-dangerously-skip-permissions'',
       append_if (skip_perms_var c) ''--dangerously-skip-permissions'',
       extend_each ''--add-dir'' (add_dirs c),
       extend_if ''--file'' (file_specs_var c),
       extend_if ''--max-budget-usd'' (max_budget_var c),
       extend_if ''--debug'' (debug_var c),
       extend_if ''--debug-file'' (debug_file_var c),
       append_if (verbose_var c) ''--verbose'',
       (if chrome_var c = ''enabled'' then [''--chrome'']
        else if chrome_var c = ''disabled'' then [''--no-chrome''] else []),
       append_if (ide_var c) ''--ide'',
       extend_if ''--settings'' (settings_var c),
       (if setting_sources c \<noteq> []
        then [''--setting-sources'', join '','' (setting_sources c)] else []),
       extend_if ''--betas'' (betas_var c),
       append_if (no_session_persistence_var c) ''--no-session-persistence'',
       (if prompt_var c \<noteq> [] then [prompt_var c] else []) ]"

text \<open>
  A configuration in which nothing is set: string variables empty, checkboxes off,
  lists empty, text widgets empty (Tk returns a newline for them), and the four
  drop-down variables at the values \<open>_init_variables\<close> gives them.
\<close>

definition unset_config :: config where
  "unset_config = \<lparr>
     claude_path_var = [], working_dir_var = [], prompt_var = [], model_var = [],
     fallback_model_var = [], continue_var = False, resume_var = [],
     fork_session_var = False, session_id_var = [], agent_var = [],
     agents_json_text = [CHR 0x0A], tools_text = [CHR 0x0A], allowed_tools_var = [],
     disallowed_tools_var = [], disable_slash_commands_var = False,
     system_prompt_text = [CHR 0x0A], append_prompt_text = [CHR 0x0A],
     print_mode_var = False, input_format_var = ''text'', output_format_var = ''text'',
     json_schema_text = [CHR 0x0A], include_partial_var = False, replay_user_var = False,
     mcp_config_var = [], strict_mcp_var = False, plugin_dirs = [],
     permission_mode_var = ''default'', allow_skip_perms_var = False,
     skip_perms_var = False, add_dirs = [], file_specs_var = [], max_budget_var = [],
     debug_var = [], debug_file_var = [], verbose_var = False, chrome_var = ''default'',
     ide_var = False, settings_var = [], setting_user_var = False,
     setting_project_var = False, setting_local_var = False, betas_var = [],
     no_session_persistence_var = False \<rparr>"

text \<open>
  Scenario A: only the model (\<open>opus\<close>), the prompt (\<open>hello\<close>) and the executable
  path (\<open>claude\<close>) are set.
\<close>

definition scenario_A :: config where
  "scenario_A = unset_config
     \<lparr> claude_path_var := ''claude'', model_var := ''opus'', prompt_var := ''hello'' \<rparr>"

text \<open>
  The texts of the user that reach the vector as tokens: the executable path, the value
  of every flag that takes one, the directories of the two lists and the prompt. A flag
  counted in the vector may also be one of these texts, typed by the user.
\<close>

definition user_tokens :: "config \<Rightarrow> string list" where
  "user_tokens c =
     [claude_path_var c, model_var c, fallback_model_var c, resume_var c, session_id_var c,
      agent_var c, strip (agents_json_text c), strip (tools_text c), allowed_tools_var c,
      disallowed_tools_var c, strip (system_prompt_text c), strip (append_prompt_text c),
      input_format_var c, output_format_var c, strip (json_schema_text c), mcp_config_var c]
     @ plugin_dirs c
     @ [permission_mode_var c]
     @ add_dirs c
     @ [file_specs_var c, max_budget_var c, debug_var c, debug_file_var c, settings_var c,
        betas_var c, prompt_var c]"

text \<open>
  Scenario A with the output format \<open>json\<close> and Chrome integration \<open>enabled\<close>, and
  scenario A with a list of tools typed in the Tools box.
\<close>

definition json_chrome_config :: config where
  "json_chrome_config = scenario_A \<lparr> output_format_var := ''json'', chrome_var := ''enabled'' \<rparr>"

definition tools_list_config :: config where
  "tools_list_config = scenario_A \<lparr> tools_text := ''Bash,Edit'' @ [CHR 0x0A] \<rparr>"

section \<open>\<open>_quote_arg\<close> and the command string\<close>

definition SQ :: char where "SQ = CHR 0x27"
definition DQ :: char where "DQ = CHR 0x22"
definition BS :: char where "BS = CHR 0x5C"
definition NL :: char where "NL = CHR 0x0A"
definition TAB :: char where "TAB = CHR 0x09"

text \<open>
  \<open>shlex.quote\<close> of the Python standard library. A string in which every character is
  in \<open>[A-Za-z0-9_@%+=:,./-]\<close> is returned as it is; any other non-empty string is put in
  single quotes, each single quote in it replaced by \<open>'"'"'\<close>.
\<close>

definition shlex_safe :: "char \<Rightarrow> bool" where
  "shlex_safe ch = (ch \<in> set
     ''abcdefghijklmnopqrstuvwxyzABCDEFGHIJKLMNOPQRSTUVWXYZ0123456789_@%+=:,./-'')"

definition shlex_quote :: "string \<Rightarrow> string" where
  "shlex_quote s =
     (if s = [] then [SQ, SQ]
      else if list_all shlex_safe s then s
      else [SQ] @ replace_char SQ [SQ, DQ, SQ, DQ, SQ] s @ [SQ])"

text \<open>\<open>_quote_arg\<close>; the first argument is \<open>sys.platform\<close>.\<close>

definition quote_arg :: "string \<Rightarrow> string \<Rightarrow> string" where
  "quote_arg platform arg =
     (if arg = [] then (if platform = ''win32'' then [DQ, DQ] else [SQ, SQ])
      else if platform = ''win32'' then
        (if CHR '' '' \<in> set arg \<or> DQ \<in> set arg \<or> TAB \<in> set arg \<or> NL \<in> set arg
            \<or> list_ex (\<lambda>ch. ch \<in> set arg) ''&|<>^''
         then [DQ] @ replace_char DQ [BS, DQ] arg @ [DQ]
         else arg)
      else shlex_quote arg)"

text \<open>\<open>_get_command_string\<close>.\<close>

definition get_command_string :: "string \<Rightarrow> config \<Rightarrow> string" where
  "get_command_string platform c = join '' '' (map (quote_arg platform) (build_command c))"

subsection \<open>How the platforms read a command line\<close>

text \<open>
  The round trip of a quoted token is measured against the rules by which the platform
  turns a command line back into arguments. These rules belong to the platforms, not to
  the program.

  POSIX shell (Shell Command Language, 2.2 Quoting, and field splitting on blanks): a
  backslash outside quotes makes the next character literal (a backslash-newline pair
  disappears); single quotes keep every character up to the next single quote; inside
  double quotes a backslash is an escape only before \<open>$\<close>, a backquote, \<open>"\<close>, a backslash
  or a newline. The reader covers words that are literal text: it answers \<open>None\<close> for
  an unquoted operator, newline, expansion or pattern character, for an expansion inside
  double quotes and for an unfinished quote or escape.
\<close>

datatype sh_state = Plain | Plain_esc | Single | Double | Double_esc

definition sh_special :: "char \<Rightarrow> bool" where
  "sh_special ch = (ch \<in> set ''|&;<>()$`*?[#~'' \<or> ch = NL)"

definition word_of :: "string option \<Rightarrow> string" where
  "word_of cur = (case cur of None \<Rightarrow> [] | Some w \<Rightarrow> w)"

fun sh_split :: "sh_state \<Rightarrow> string option \<Rightarrow> string \<Rightarrow> string list option" where
  "sh_split st cur [] =
     (if st = Plain then Some (case cur of None \<Rightarrow> [] | Some w \<Rightarrow> [w]) else None)"
| "sh_split st cur (ch # rest) =
     (case st of
        Plain \<Rightarrow>
          if ch = SQ then sh_split Single (Some (word_of cur)) rest
          else if ch = DQ then sh_split Double (Some (word_of cur)) rest
          else if ch = BS then sh_split Plain_esc cur rest
          else if ch = CHR '' '' \<or> ch = TAB then
            (case cur of
               None \<Rightarrow> sh_split Plain None rest
             | Some w \<Rightarrow> map_option ((#) w) (sh_split Plain None rest))
          else if sh_special ch then None
          else sh_split Plain (Some (word_of cur @ [ch])) rest
      | Plain_esc \<Rightarrow>
          if ch = NL then sh_split Plain cur rest
          else sh_split Plain (Some (word_of cur @ [ch])) rest
      | Single \<Rightarrow>
          if ch = SQ then sh_split Plain cur rest
          else sh_split Single (Some (word_of cur @ [ch])) rest
      | Double \<Rightarrow>
          if ch = DQ then sh_split Plain cur rest
          else if ch = BS then sh_split Double_esc cur rest
          else if ch = CHR ''$'' \<or> ch = CHR ''`'' then None
          else sh_split Double (Some (word_of cur @ [ch])) rest
      | Double_esc \<Rightarrow>
          if ch = NL then sh_split Double cur rest
          else if ch = CHR ''$'' \<or> ch = CHR ''`'' \<or> ch = DQ \<or> ch = BS
          then sh_split Double (Some (word_of cur @ [ch])) rest
          else sh_split Double (Some (word_of cur @ [BS, ch])) rest)"

text \<open>
  Windows (the argument rules of the Microsoft C runtime, which Python's
  \<open>subprocess.list2cmdline\<close> documents): arguments are separated by spaces and tabs; a
  double quote opens or closes a quoted part, in which blanks do not separate; a run of
  \<open>n\<close> backslashes is literal unless a double quote follows it, and then it stands for
  \<open>n div 2\<close> backslashes, followed by a literal double quote when \<open>n\<close> is odd and by a
  quote that opens or closes when \<open>n\<close> is even. The arguments of \<open>win_split\<close>: inside
  quotes or not, the length of the pending run of backslashes, the argument being read.
\<close>

fun win_split :: "bool \<Rightarrow> nat \<Rightarrow> string option \<Rightarrow> string \<Rightarrow> string list" where
  "win_split inq n cur [] =
     (if n = 0 \<and> cur = None then [] else [word_of cur @ replicate n BS])"
| "win_split inq n cur (ch # rest) =
     (if ch = BS then win_split inq (Suc n) cur rest
      else if ch = DQ then
        (if even n
         then win_split (\<not> inq) 0 (Some (word_of cur @ replicate (n div 2) BS)) rest
         else win_split inq 0 (Some (word_of cur @ replicate (n div 2) BS @ [DQ])) rest)
      else if (ch = CHR '' '' \<or> ch = TAB) \<and> \<not> inq then
        (if n = 0 \<and> cur = None then [] else [word_of cur @ replicate n BS])
        @ win_split False 0 None rest
      else win_split inq 0 (Some (word_of cur @ replicate n BS @ [ch])) rest)"

text \<open>A Windows directory path with a blank in it that ends in a backslash: \<open>C:\a b\\<close>.\<close>

definition win_dir_token :: string where
  "win_dir_token = [CHR ''C'', CHR '':'', BS, CHR ''a'', CHR '' '', CHR ''b'', BS]"

section \<open>The launcher\<close>

subsection \<open>Exceptions, the environment and the effects of a launch\<close>

text \<open>
  Exceptions carry the text that \<open>str(e)\<close> gives. \<open>FileNotFoundError\<close> is a subclass of
  \<open>OSError\<close>, so \<open>except OSError\<close> catches both; every exception here is caught by
  \<open>except Exception\<close>.
\<close>

datatype exn = OSError string | FileNotFoundError string | OtherException string

fun is_OSError :: "exn \<Rightarrow> bool" where
  "is_OSError (OSError m) = True"
| "is_OSError (FileNotFoundError m) = True"
| "is_OSError (OtherException m) = False"

fun exn_str :: "exn \<Rightarrow> string" where
  "exn_str (OSError m) = m"
| "exn_str (FileNotFoundError m) = m"
| "exn_str (OtherException m) = m"

text \<open>
  What the operating system answers during one launch: the platform, which paths are
  directories, what \<open>_get_safe_working_dir()\<close> returns, the descriptor and path that
  \<open>tempfile.mkstemp\<close> hands out (or the exception it raises), whether \<open>os.write\<close>,
  \<open>os.close\<close>, \<open>os.chmod\<close> and \<open>os.remove\<close> fail, what \<open>shutil.which\<close> and
  \<open>os.path.exists\<close> answer, and the exception, if any, that \<open>subprocess.Popen\<close> raises
  for an argument vector and working directory.
\<close>

record env =
  sys_platform :: string
  isdir :: "string \<Rightarrow> bool"
  safe_working_dir :: string
  mkstemp_result :: "exn + nat \<times> string"
  write_fails :: bool
  close_fails :: bool
  chmod_fails :: bool
  remove_fails :: bool
  which :: "string \<Rightarrow> string option"
  path_exists :: "string \<Rightarrow> bool"
  popen_error :: "string list \<Rightarrow> string option \<Rightarrow> exn option"

datatype spawn_flag = CREATE_NEW_CONSOLE | Start_new_session

datatype proc = Proc "string list" "string option" spawn_flag

datatype dialog = Showinfo string string | Showerror string string

datatype call =
  Call_mkstemp | Call_write nat | Call_close nat | Call_chmod string
  | Call_remove string | Call_popen "string list"

text \<open>
  What a launch changes: the files on disk (content and permission bits), the open file
  descriptors (each with the path it was opened on), the child processes started, the
  message boxes shown, and the log of every call made to the operating system, whether
  it succeeded or not.
\<close>

record world =
  files :: "string \<rightharpoonup> string \<times> nat"
  fds :: "nat \<rightharpoonup> string"
  procs :: "proc list"
  dialogs :: "dialog list"
  calls :: "call list"

definition log_call :: "call \<Rightarrow> world \<Rightarrow> world" where
  "log_call k w = w\<lparr>calls := calls w @ [k]\<rparr>"

definition showinfo :: "string \<Rightarrow> string \<Rightarrow> world \<Rightarrow> world" where
  "showinfo title msg w = w\<lparr>dialogs := dialogs w @ [Showinfo title msg]\<rparr>"

definition showerror :: "string \<Rightarrow> string \<Rightarrow> world \<Rightarrow> world" where
  "showerror title msg w = w\<lparr>dialogs := dialogs w @ [Showerror title msg]\<rparr>"

text \<open>\<open>tempfile.mkstemp\<close>: a new file, empty, mode \<open>0o600\<close> (384), open on a descriptor.\<close>

definition mkstemp :: "env \<Rightarrow> world \<Rightarrow> (exn + nat \<times> string) \<times> world" where
  "mkstemp e w =
     (case mkstemp_result e of
        Inl x \<Rightarrow> (Inl x, log_call Call_mkstemp w)
      | Inr (fd, p) \<Rightarrow>
          (Inr (fd, p),
           (log_call Call_mkstemp w)\<lparr>files := (files w)(p \<mapsto> ([], 384)),
                                      fds := (fds w)(fd \<mapsto> p)\<rparr>))"

text \<open>
  \<open>os.write\<close>, \<open>os.close\<close>, \<open>os.chmod\<close>, \<open>os.remove\<close>. A descriptor that is not open is
  refused with \<open>EBADF\<close>. A failing \<open>os.close\<close> releases the descriptor all the same, as
  \<open>close(2)\<close> does on Linux.
\<close>

definition EBADF :: string where
  "EBADF = ''[Errno 9] Bad file descriptor''"

definition os_write :: "env \<Rightarrow> nat \<Rightarrow> string \<Rightarrow> world \<Rightarrow> (exn + unit) \<times> world" where
  "os_write e fd data w =
     (case fds w fd of
        None \<Rightarrow> (Inl (OSError EBADF), log_call (Call_write fd) w)
      | Some p \<Rightarrow>
          if write_fails e then (Inl (OSError ''write failed''), log_call (Call_write fd) w)
          else (Inr (),
                (log_call (Call_write fd) w)\<lparr>files :=
                   (case files w p of
                      None \<Rightarrow> files w
                    | Some (old, mode) \<Rightarrow> (files w)(p \<mapsto> (old @ data, mode)))\<rparr>))"

definition os_close :: "env \<Rightarrow> nat \<Rightarrow> world \<Rightarrow> (exn + unit) \<times> world" where
  "os_close e fd w =
     (case fds w fd of
        None \<Rightarrow> (Inl (OSError EBADF), log_call (Call_close fd) w)
      | Some p \<Rightarrow>
          (if close_fails e then Inl (OSError ''close failed'') else Inr (),
           (log_call (Call_close fd) w)\<lparr>fds := (fds w)(fd := None)\<rparr>))"

definition os_chmod :: "env \<Rightarrow> string \<Rightarrow> nat \<Rightarrow> world \<Rightarrow> (exn + unit) \<times> world" where
  "os_chmod e p mode w =
     (if chmod_fails e then (Inl (OSError ''chmod failed''), log_call (Call_chmod p) w)
      else case files w p of
        None \<Rightarrow> (Inl (FileNotFoundError p), log_call (Call_chmod p) w)
      | Some (data, old) \<Rightarrow>
          (Inr (), (log_call (Call_chmod p) w)\<lparr>files := (files w)(p \<mapsto> (data, mode))\<rparr>))"

definition os_remove :: "env \<Rightarrow> string \<Rightarrow> world \<Rightarrow> (exn + unit) \<times> world" where
  "os_remove e p w =
     (if remove_fails e then (Inl (OSError ''remove failed''), log_call (Call_remove p) w)
      else case files w p of
        None \<Rightarrow> (Inl (FileNotFoundError p), log_call (Call_remove p) w)
      | Some f \<Rightarrow> (Inr (), (log_call (Call_remove p) w)\<lparr>files := (files w)(p := None)\<rparr>))"

text \<open>\<open>subprocess.Popen(argv, cwd=..., ...)\<close>: the child runs on its own once started.\<close>

definition popen ::
  "env \<Rightarrow> string list \<Rightarrow> string option \<Rightarrow> spawn_flag \<Rightarrow> world \<Rightarrow> (exn + unit) \<times> world" where
  "popen e argv cwd flag w =
     (case popen_error e argv cwd of
        Some x \<Rightarrow> (Inl x, log_call (Call_popen argv) w)
      | None \<Rightarrow>
          (Inr (), (log_call (Call_popen argv) w)\<lparr>procs := procs w @ [Proc argv cwd flag]\<rparr>))"

subsection \<open>\<open>_launch_claude_unix\<close>\<close>

text \<open>The text of the staged script.\<close>

definition script_content :: "string \<Rightarrow> string list \<Rightarrow> string \<Rightarrow> string" where
  "script_content working_dir cmd script_path =
     ''#!/bin/sh'' @ [NL]
     @ ''cd '' @ shlex_quote working_dir @ '' && ''
     @ join '' '' (map shlex_quote cmd) @ [NL]
     @ ''rm -f '' @ shlex_quote script_path @ [NL]"

text \<open>The body of the \<open>try\<close>: write, close, \<open>chmod\<close> to \<open>stat.S_IRWXU\<close> (448).\<close>

definition write_script ::
  "env \<Rightarrow> nat \<Rightarrow> string \<Rightarrow> string \<Rightarrow> world \<Rightarrow> (exn + unit) \<times> world" where
  "write_script e fd script_path content w =
     (case os_write e fd content w of
        (Inl x, w1) \<Rightarrow> (Inl x, w1)
      | (Inr u, w1) \<Rightarrow>
          (case os_close e fd w1 of
             (Inl x, w2) \<Rightarrow> (Inl x, w2)
           | (Inr u, w2) \<Rightarrow> os_chmod e script_path 448 w2))"

text \<open>
  The \<open>try\<close> with its handler \<open>except OSError: os.close(fd); try: os.remove(script_path)
  except OSError: pass; raise\<close>. An exception raised inside the handler leaves it at
  once and takes the place of the one being handled.
\<close>

definition stage_script ::
  "env \<Rightarrow> nat \<Rightarrow> string \<Rightarrow> string \<Rightarrow> world \<Rightarrow> (exn + unit) \<times> world" where
  "stage_script e fd script_path content w =
     (case write_script e fd script_path content w of
        (Inr u, w1) \<Rightarrow> (Inr u, w1)
      | (Inl x, w1) \<Rightarrow>
          if is_OSError x then
            (case os_close e fd w1 of
               (Inl y, w2) \<Rightarrow> (Inl y, w2)
             | (Inr u, w2) \<Rightarrow>
                 (case os_remove e script_path w2 of
                    (Inl z, w3) \<Rightarrow> if is_OSError z then (Inl x, w3) else (Inl z, w3)
                  | (Inr u, w3) \<Rightarrow> (Inl x, w3)))
          else (Inl x, w1))"

text \<open>The list \<open>launchers\<close>, for a platform and a script path.\<close>

definition launchers :: "string \<Rightarrow> string \<Rightarrow> string list list" where
  "launchers platform script_path =
     (if platform = ''darwin''
      then [[''osascript'', ''-e'',
             ''tell application '' @ [DQ] @ ''Terminal'' @ [DQ] @ '' to do script '' @ [DQ]
             @ ''sh '' @ replace_char DQ [BS, DQ] (replace_char BS [BS, BS] script_path)
             @ [DQ]]]
      else [])
     @ [[''x-terminal-emulator'', ''-e'', ''sh '' @ shlex_quote script_path @ ''; exec sh''],
        [''gnome-terminal'', ''--'', ''sh'', ''-c'',
         ''sh '' @ shlex_quote script_path @ ''; exec bash''],
        [''xterm'', ''-e'', ''sh '' @ shlex_quote script_path @ ''; exec sh''],
        [''konsole'', ''-e'', ''sh'', shlex_quote script_path],
        [''xfce4-terminal'', ''-e'', ''sh '' @ shlex_quote script_path @ ''; exec sh'']]"

text \<open>\<open>s.startswith("/")\<close>, which is also \<open>os.path.isabs(s)\<close> on POSIX.\<close>

definition startswith_slash :: "string \<Rightarrow> bool" where
  "startswith_slash s = (case s of [] \<Rightarrow> False | ch # t \<Rightarrow> ch = CHR ''/'')"

text \<open>
  The test of the loop body on the program name \<open>argv[0]\<close>:
  \<open>exe = shutil.which(argv[0]) if not argv[0].startswith("/") else argv[0]\<close>, then
  \<open>exe and (os.path.exists(exe) if os.path.isabs(exe) else True)\<close>.
\<close>

definition resolves :: "env \<Rightarrow> string \<Rightarrow> bool" where
  "resolves e name =
     (case (if \<not> startswith_slash name then which e name else Some name) of
        None \<Rightarrow> False
      | Some exe \<Rightarrow>
          exe \<noteq> [] \<and> (if startswith_slash exe then path_exists e exe else True))"

datatype probe = Started | Exhausted | Raised exn

text \<open>
  The loop over \<open>launchers\<close>: the first candidate that resolves and starts ends the
  function; an \<open>OSError\<close> from a start moves on to the next candidate; any other
  exception leaves the function. \<open>argv[0]\<close> of an empty list raises \<open>IndexError\<close>.
\<close>

fun try_launchers :: "env \<Rightarrow> string list list \<Rightarrow> world \<Rightarrow> probe \<times> world" where
  "try_launchers e [] w = (Exhausted, w)"
| "try_launchers e (argv # others) w =
     (case argv of
        [] \<Rightarrow> (Raised (OtherException ''list index out of range''), w)
      | name # args \<Rightarrow>
          if resolves e name then
            (case popen e argv None Start_new_session w of
               (Inr u, w1) \<Rightarrow> (Started, w1)
             | (Inl x, w1) \<Rightarrow>
                 if is_OSError x then try_launchers e others w1 else (Raised x, w1))
          else try_launchers e others w)"

definition background_notice :: string where
  "background_notice =
     ''Claude CLI was started but no terminal was found to show output.'' @ [NL, NL]
     @ ''Run it from a terminal, or install a terminal emulator (e.g. gnome-terminal, xterm).''"

text \<open>
  The fallback \<open>try: Popen(cmd, cwd=working_dir, ...) finally: try: os.remove(script_path)
  except OSError: pass\<close>, followed by the notice when the \<open>try\<close> raised nothing.
\<close>

definition fallback ::
  "env \<Rightarrow> string list \<Rightarrow> string \<Rightarrow> string \<Rightarrow> world \<Rightarrow> (exn + unit) \<times> world" where
  "fallback e cmd working_dir script_path w =
     (case popen e cmd (Some working_dir) Start_new_session w of
        (r, w1) \<Rightarrow>
          (case os_remove e script_path w1 of
             (rm, w2) \<Rightarrow>
               (case rm of
                  Inl z \<Rightarrow> if is_OSError z then
                      (case r of
                         Inl x \<Rightarrow> (Inl x, w2)
                       | Inr u \<Rightarrow>
                           (Inr (), showinfo ''Launched in background'' background_notice w2))
                    else (Inl z, w2)
                | Inr u \<Rightarrow>
                    (case r of
                       Inl x \<Rightarrow> (Inl x, w2)
                     | Inr u \<Rightarrow>
                         (Inr (), showinfo ''Launched in background'' background_notice w2)))))"

definition launch_claude_unix ::
  "env \<Rightarrow> string list \<Rightarrow> string \<Rightarrow> world \<Rightarrow> (exn + unit) \<times> world" where
  "launch_claude_unix e cmd working_dir w =
     (case mkstemp e w of
        (Inl x, w1) \<Rightarrow> (Inl x, w1)
      | (Inr (fd, script_path), w1) \<Rightarrow>
          (case stage_script e fd script_path
                  (script_content working_dir cmd script_path) w1 of
             (Inl x, w2) \<Rightarrow> (Inl x, w2)
           | (Inr u, w2) \<Rightarrow>
               (case try_launchers e (launchers (sys_platform e) script_path) w2 of
                  (Started, w3) \<Rightarrow> (Inr (), w3)
                | (Raised x, w3) \<Rightarrow> (Inl x, w3)
                | (Exhausted, w3) \<Rightarrow> fallback e cmd working_dir script_path w3)))"

subsection \<open>\<open>_launch_claude\<close>\<close>

definition not_found_notice :: string where
  "not_found_notice =
     ''Could not find Claude CLI. Make sure 'claude' is installed and in your PATH.''
     @ [NL, NL] @ ''You can install it with: npm install -g @anthropic-ai/claude-code''"

text \<open>\<open>self.working_dir_var.get().strip() or self._get_safe_working_dir()\<close>.\<close>

definition working_dir_of :: "env \<Rightarrow> config \<Rightarrow> string" where
  "working_dir_of e c =
     (if strip (working_dir_var c) \<noteq> [] then strip (working_dir_var c)
      else safe_working_dir e)"

definition launch_claude :: "env \<Rightarrow> config \<Rightarrow> world \<Rightarrow> world" where
  "launch_claude e c w =
     (if \<not> isdir e (working_dir_of e c)
      then showerror ''Error''
             (''Working directory does not exist: '' @ working_dir_of e c) w
      else
        (case (if sys_platform e = ''win32''
               then popen e (build_command c) (Some (working_dir_of e c)) CREATE_NEW_CONSOLE w
               else launch_claude_unix e (build_command c) (working_dir_of e c) w) of
           (Inr u, w1) \<Rightarrow>
             showinfo ''Launched'' ''Claude CLI has been launched in a new window!'' w1
         | (Inl (FileNotFoundError m), w1) \<Rightarrow> showerror ''Error'' not_found_notice w1
         | (Inl x, w1) \<Rightarrow>
             showerror ''Error'' (''Failed to launch Claude CLI:'' @ [NL] @ exn_str x) w1))"

text \<open>
  A candidate of the loop that gives no terminal: its program name does not resolve, or
  starting it raises an \<open>OSError\<close>.
\<close>

definition unavailable :: "env \<Rightarrow> string list \<Rightarrow> bool" where
  "unavailable e argv =
     (case argv of
        [] \<Rightarrow> False
      | name # args \<Rightarrow>
          \<not> resolves e name
          \<or> (case popen_error e argv None of None \<Rightarrow> False | Some x \<Rightarrow> is_OSError x))"

subsection \<open>Three environments\<close>

text \<open>
  A Linux machine on which no terminal emulator is installed and every call succeeds;
  the same machine with a temporary directory on which \<open>os.chmod\<close> is refused; the
  same machine without the \<open>claude\<close> program, so that starting it raises
  \<open>FileNotFoundError\<close>.
\<close>

definition env_no_terminal :: env where
  "env_no_terminal = \<lparr>
     sys_platform = ''linux'', isdir = (\<lambda>p. p = ''/home/user''),
     safe_working_dir = ''/home/user'',
     mkstemp_result = Inr (3, ''/tmp/claude_gui_k3x9.sh''),
     write_fails = False, close_fails = False, chmod_fails = False, remove_fails = False,
     which = (\<lambda>name. None), path_exists = (\<lambda>p. False),
     popen_error = (\<lambda>argv cwd. None) \<rparr>"

definition env_chmod_refused :: env where
  "env_chmod_refused = env_no_terminal \<lparr> chmod_fails := True \<rparr>"

definition env_spawn_fails :: env where
  "env_spawn_fails = env_no_terminal
     \<lparr> popen_error := (\<lambda>argv cwd. Some (FileNotFoundError ''claude'')) \<rparr>"

definition world0 :: world where
  "world0 = \<lparr> files = Map.empty, fds = Map.empty, procs = [], dialogs = [], calls = [] \<rparr>"

section \<open>Properties of \<open>_build_command\<close>\<close>

lemma strip_newline: "strip [CHR 0x0A] = []"
  by (simp add: strip_def isspace_def)


text \<open>
  Framing: a piece \<open>g v\<close> that sits somewhere in a chain of appends whose other pieces
  do not depend on \<open>v\<close> is surrounded by a fixed prefix and a fixed suffix.
\<close>

lemma frame_step:
  assumes "\<exists>pre post. \<forall>v. f v = pre @ g v @ post"
  shows "\<exists>pre post. \<forall>v. a @ f v = pre @ g v @ post"
proof -
  from assms obtain pre post where "\<forall>v. f v = pre @ g v @ post"
    by blast
  then have "\<forall>v. a @ f v = (a @ pre) @ g v @ post"
    by simp
  then show ?thesis
    by blast
qed

lemma frame_cons:
  "\<exists>pre post. \<forall>v. f v = pre @ g v @ post \<Longrightarrow> \<exists>pre post. \<forall>v. x # f v = pre @ g v @ post"
  using frame_step [of f g "[x]"] by simp

lemma frame_base: "\<exists>pre post. \<forall>v. g v @ b = pre @ g v @ post"
proof -
  have "\<forall>v. g v @ b = [] @ g v @ b"
    by simp
  then show ?thesis
    by blast
qed

lemma input_format_piece:
  "\<exists>pre post. \<forall>v. build_command (c\<lparr>input_format_var := v\<rparr>) =
      pre @ (if v \<noteq> ''text'' then [''--input-format'', v] else []) @ post"
  unfolding build_command_def setting_sources_def concat.simps
  apply (simp split del: if_split cong: if_cong)
  apply (rule frame_cons frame_step)+
  apply (rule frame_base)
  done

lemma output_format_piece:
  "\<exists>pre post. \<forall>v. build_command (c\<lparr>output_format_var := v\<rparr>) =
      pre @ (if v \<noteq> ''text'' then [''--output-format'', v] else []) @ post"
  unfolding build_command_def setting_sources_def concat.simps
  apply (simp split del: if_split cong: if_cong)
  apply (rule frame_cons frame_step)+
  apply (rule frame_base)
  done

lemma permission_mode_piece:
  "\<exists>pre post. \<forall>v. build_command (c\<lparr>permission_mode_var := v\<rparr>) =
      pre @ (if v \<noteq> ''default'' then [''--permission-mode'', v] else []) @ post"
  unfolding build_command_def setting_sources_def concat.simps
  apply (simp split del: if_split cong: if_cong)
  apply (rule frame_cons frame_step)+
  apply (rule frame_base)
  done

lemma chrome_piece:
  "\<exists>pre post. \<forall>v. build_command (c\<lparr>chrome_var := v\<rparr>) =
      pre @ (if v = ''enabled'' then [''--chrome'']
             else if v = ''disabled'' then [''--no-chrome''] else []) @ post"
  unfolding build_command_def setting_sources_def concat.simps
  apply (simp split del: if_split cong: if_cong)
  apply (rule frame_cons frame_step)+
  apply (rule frame_base)
  done

lemma tools_piece:
  "\<exists>pre post. \<forall>v. build_command (c\<lparr>tools_text := v\<rparr>) =
      pre @ extend_if ''--tools'' (strip v) @ post"
  unfolding build_command_def setting_sources_def concat.simps
  apply (simp split del: if_split cong: if_cong)
  apply (rule frame_cons frame_step)+
  apply (rule frame_base)
  done

lemma prompt_piece:
  "build_command (c\<lparr>prompt_var := p\<rparr>) =
     build_command (c\<lparr>prompt_var := []\<rparr>) @ (if p = [] then [] else [p])"
  by (simp add: build_command_def setting_sources_def)

text \<open>
  C1. Whatever the other fields hold, a non-empty prompt is the last token of the vector
  that \<open>_build_command\<close> returns. The prompt field contributes nothing else: the vector
  is a list of tokens that does not depend on the prompt, followed by the prompt when it
  is non-empty and by nothing when it is empty.
\<close>

theorem prompt_is_last:
  "(prompt_var c \<noteq> [] \<longrightarrow> last (build_command c) = prompt_var c) \<and>
   (\<exists>flags. \<forall>p. build_command (c\<lparr>prompt_var := p\<rparr>) =
       flags @ (if p = [] then [] else [p]))"
proof
  show "prompt_var c \<noteq> [] \<longrightarrow> last (build_command c) = prompt_var c"
    by (simp add: build_command_def)
  show "\<exists>flags. \<forall>p. build_command (c\<lparr>prompt_var := p\<rparr>) =
          flags @ (if p = [] then [] else [p])"
    using prompt_piece [where c = c] by blast
qed

theorem prompt_is_last_witness:
  "prompt_var scenario_A \<noteq> [] \<and> last (build_command scenario_A) = ''hello''"
  using prompt_is_last [of scenario_A]
  by (simp add: scenario_A_def unset_config_def)

text \<open>
  Counting a token in the vector. A piece contributes no occurrence of a token that is
  neither its flag nor its value.
\<close>

lemma count_extend_if:
  "flag \<noteq> t \<Longrightarrow> t \<noteq> v \<Longrightarrow> count_list (extend_if flag v) t = 0"
  by (auto simp: extend_if_def)

lemma count_append_if:
  "flag \<noteq> t \<Longrightarrow> count_list (append_if b flag) t = 0"
  by (simp add: append_if_def)

lemma count_extend_each:
  "flag \<noteq> t \<Longrightarrow> t \<notin> set ds \<Longrightarrow> count_list (extend_each flag ds) t = 0"
  by (induction ds) (auto simp: extend_each_def)

lemma count_pair_if:
  "flag \<noteq> t \<Longrightarrow> t \<noteq> v \<Longrightarrow> count_list (if b then [flag, v] else []) t = 0"
  by auto

lemma sources_not_flag:
  "t \<noteq> [] \<Longrightarrow> hd t = CHR ''-'' \<Longrightarrow> join '','' (setting_sources c) \<noteq> t"
  by (cases "setting_user_var c"; cases "setting_project_var c"; cases "setting_local_var c")
     (auto simp: setting_sources_def append_if_def)

lemma count_sources:
  "t \<noteq> [] \<Longrightarrow> hd t = CHR ''-'' \<Longrightarrow> t \<noteq> ''--setting-sources'' \<Longrightarrow>
   count_list (if setting_sources c \<noteq> []
        then [''--setting-sources'', join '','' (setting_sources c)] else []) t = 0"
  using sources_not_flag [of t c] by auto

lemma count_first:
  "t \<noteq> ''claude'' \<Longrightarrow> t \<noteq> p \<Longrightarrow> count_list [if p \<noteq> [] then p else ''claude''] t = 0"
  by auto

lemma count_prompt:
  "t \<noteq> p \<Longrightarrow> count_list (if p \<noteq> [] then [p] else []) t = 0"
  by auto

lemma count_chrome:
  "t \<noteq> ''--chrome'' \<Longrightarrow> t \<noteq> ''--no-chrome'' \<Longrightarrow>
   count_list (if v = ''enabled'' then [''--chrome'']
        else if v = ''disabled'' then [''--no-chrome''] else []) t = 0"
  by auto

lemma user_tokens_fresh:
  assumes "t \<notin> set (user_tokens c)"
  shows "t \<noteq> claude_path_var c" "t \<noteq> model_var c"
    "t \<noteq> fallback_model_var c" "t \<noteq> resume_var c"
    "t \<noteq> session_id_var c" "t \<noteq> agent_var c"
    "t \<noteq> strip (agents_json_text c)"
    "t \<noteq> strip (tools_text c)"
    "t \<noteq> allowed_tools_var c" "t \<noteq> disallowed_tools_var c"
    "t \<noteq> strip (system_prompt_text c)"
    "t \<noteq> strip (append_prompt_text c)"
    "t \<noteq> input_format_var c" "t \<noteq> output_format_var c"
    "t \<noteq> strip (json_schema_text c)"
    "t \<noteq> mcp_config_var c" "t \<notin> set (plugin_dirs c)"
    "t \<noteq> permission_mode_var c" "t \<notin> set (add_dirs c)"
    "t \<noteq> file_specs_var c" "t \<noteq> max_budget_var c"
    "t \<noteq> debug_var c" "t \<noteq> debug_file_var c"
    "t \<noteq> settings_var c" "t \<noteq> betas_var c"
    "t \<noteq> prompt_var c"
  using assms by (auto simp: user_tokens_def)

lemmas count_piece = count_extend_if count_append_if count_extend_each count_pair_if
  count_first count_prompt count_chrome

lemma count_input_format:
  assumes "''--input-format'' \<notin> set (user_tokens c)"
  shows "count_list (build_command c) ''--input-format'' =
     (if input_format_var c = ''text'' then 0 else 1)"
proof -
  note u = user_tokens_fresh [OF assms]
  have s: "count_list (if setting_sources c \<noteq> []
        then [''--setting-sources'', join '','' (setting_sources c)] else [])
      ''--input-format'' = 0"
    by (rule count_sources) simp_all
  show ?thesis
    unfolding build_command_def concat.simps count_list_append s
    by (simp add: u count_piece split del: if_split) (use u in auto)
qed

lemma count_output_format:
  assumes "''--output-format'' \<notin> set (user_tokens c)"
  shows "count_list (build_command c) ''--output-format'' =
     (if output_format_var c = ''text'' then 0 else 1)"
proof -
  note u = user_tokens_fresh [OF assms]
  have s: "count_list (if setting_sources c \<noteq> []
        then [''--setting-sources'', join '','' (setting_sources c)] else [])
      ''--output-format'' = 0"
    by (rule count_sources) simp_all
  show ?thesis
    unfolding build_command_def concat.simps count_list_append s
    by (simp add: u count_piece split del: if_split) (use u in auto)
qed

lemma count_permission_mode:
  assumes "''--permission-mode'' \<notin> set (user_tokens c)"
  shows "count_list (build_command c) ''--permission-mode'' =
     (if permission_mode_var c = ''default'' then 0 else 1)"
proof -
  note u = user_tokens_fresh [OF assms]
  have s: "count_list (if setting_sources c \<noteq> []
        then [''--setting-sources'', join '','' (setting_sources c)] else [])
      ''--permission-mode'' = 0"
    by (rule count_sources) simp_all
  show ?thesis
    unfolding build_command_def concat.simps count_list_append s
    by (simp add: u count_piece split del: if_split) (use u in auto)
qed

lemma count_chrome_flag:
  assumes "''--chrome'' \<notin> set (user_tokens c)"
  shows "count_list (build_command c) ''--chrome'' =
     (if chrome_var c = ''enabled'' then 1 else 0)"
proof -
  note u = user_tokens_fresh [OF assms]
  have s: "count_list (if setting_sources c \<noteq> []
        then [''--setting-sources'', join '','' (setting_sources c)] else [])
      ''--chrome'' = 0"
    by (rule count_sources) simp_all
  show ?thesis
    unfolding build_command_def concat.simps count_list_append s
    by (simp add: u count_piece split del: if_split) (use u in auto)
qed

lemma count_no_chrome_flag:
  assumes "''--no-chrome'' \<notin> set (user_tokens c)"
  shows "count_list (build_command c) ''--no-chrome'' =
     (if chrome_var c = ''disabled'' then 1 else 0)"
proof -
  note u = user_tokens_fresh [OF assms]
  have s: "count_list (if setting_sources c \<noteq> []
        then [''--setting-sources'', join '','' (setting_sources c)] else [])
      ''--no-chrome'' = 0"
    by (rule count_sources) simp_all
  show ?thesis
    unfolding build_command_def concat.simps count_list_append s
    by (simp add: u count_piece split del: if_split) (use u in auto)
qed

lemma count_tools:
  assumes "''--tools'' \<notin> set (user_tokens c)"
  shows "count_list (build_command c) ''--tools'' =
     (if strip (tools_text c) = [] then 0 else 1)"
proof -
  note u = user_tokens_fresh [OF assms]
  have s: "count_list (if setting_sources c \<noteq> []
        then [''--setting-sources'', join '','' (setting_sources c)] else [])
      ''--tools'' = 0"
    by (rule count_sources) simp_all
  show ?thesis
    unfolding build_command_def concat.simps count_list_append s
    by (simp add: u count_piece split del: if_split) (use u in \<open>auto simp: extend_if_def\<close>)
qed

lemma single_pair:
  assumes "count_list (pre @ [flag, v] @ post) flag = 1"
  shows "flag \<notin> set pre \<and> flag \<notin> set post"
proof -
  from assms have "count_list pre flag = 0" "count_list post flag = 0"
    by (simp_all split: if_splits)
  then show ?thesis
    by (simp add: count_list_0_iff)
qed

text \<open>
  A piece that is present, whose flag occurs once in the vector: it is the only place
  where the flag stands, and the value follows it at once.
\<close>

lemma pair_once:
  assumes fr: "\<exists>pre post. \<forall>v. build_command (upd v) = pre @ (if b v then [flag, val v] else []) @ post"
    and same: "upd x = c" and on: "b x"
    and cnt: "count_list (build_command c) flag = 1"
  shows "\<exists>pre post. build_command c = pre @ [flag, val x] @ post
           \<and> flag \<notin> set pre \<and> flag \<notin> set post"
proof -
  from fr obtain pre post where
    a: "\<And>v. build_command (upd v) = pre @ (if b v then [flag, val v] else []) @ post"
    by blast
  have "build_command (upd x) = pre @ [flag, val x] @ post"
    unfolding a [of x] using on by simp
  then have eq: "build_command c = pre @ [flag, val x] @ post"
    unfolding same .
  from cnt have "count_list (pre @ [flag, val x] @ post) flag = 1"
    unfolding eq .
  then have "flag \<notin> set pre \<and> flag \<notin> set post"
    by (rule single_pair)
  with eq show ?thesis
    by blast
qed


lemma input_once:
  assumes "''--input-format'' \<notin> set (user_tokens c)" and "input_format_var c \<noteq> ''text''"
  shows "\<exists>pre post. build_command c = pre @ [''--input-format'', input_format_var c] @ post
           \<and> ''--input-format'' \<notin> set pre \<and> ''--input-format'' \<notin> set post"
proof -
  have fr: "\<exists>pre post. \<forall>v. build_command (c\<lparr>input_format_var := v\<rparr>) =
      pre @ (if v \<noteq> ''text'' then [''--input-format'', v] else []) @ post"
    by (rule input_format_piece)
  have same: "c\<lparr>input_format_var := input_format_var c\<rparr> = c"
    by simp
  have cnt: "count_list (build_command c) ''--input-format'' = 1"
    using count_input_format [OF assms(1)] assms(2) by simp
  show ?thesis
    using pair_once [of "\<lambda>v. c\<lparr>input_format_var := v\<rparr>" "\<lambda>v. v \<noteq> ''text''"
        "''--input-format''" "\<lambda>v. v" "input_format_var c" c, OF fr same assms(2) cnt] .
qed


lemma output_once:
  assumes "''--output-format'' \<notin> set (user_tokens c)" and "output_format_var c \<noteq> ''text''"
  shows "\<exists>pre post. build_command c = pre @ [''--output-format'', output_format_var c] @ post
           \<and> ''--output-format'' \<notin> set pre \<and> ''--output-format'' \<notin> set post"
proof -
  have fr: "\<exists>pre post. \<forall>v. build_command (c\<lparr>output_format_var := v\<rparr>) =
      pre @ (if v \<noteq> ''text'' then [''--output-format'', v] else []) @ post"
    by (rule output_format_piece)
  have same: "c\<lparr>output_format_var := output_format_var c\<rparr> = c"
    by simp
  have cnt: "count_list (build_command c) ''--output-format'' = 1"
    using count_output_format [OF assms(1)] assms(2) by simp
  show ?thesis
    using pair_once [of "\<lambda>v. c\<lparr>output_format_var := v\<rparr>" "\<lambda>v. v \<noteq> ''text''"
        "''--output-format''" "\<lambda>v. v" "output_format_var c" c, OF fr same assms(2) cnt] .
qed

lemma permission_once:
  assumes "''--permission-mode'' \<notin> set (user_tokens c)"
    and "permission_mode_var c \<noteq> ''default''"
  shows "\<exists>pre post. build_command c = pre @ [''--permission-mode'', permission_mode_var c] @ post
           \<and> ''--permission-mode'' \<notin> set pre \<and> ''--permission-mode'' \<notin> set post"
proof -
  have fr: "\<exists>pre post. \<forall>v. build_command (c\<lparr>permission_mode_var := v\<rparr>) =
      pre @ (if v \<noteq> ''default'' then [''--permission-mode'', v] else []) @ post"
    by (rule permission_mode_piece)
  have same: "c\<lparr>permission_mode_var := permission_mode_var c\<rparr> = c"
    by simp
  have cnt: "count_list (build_command c) ''--permission-mode'' = 1"
    using count_permission_mode [OF assms(1)] assms(2) by simp
  show ?thesis
    using pair_once [of "\<lambda>v. c\<lparr>permission_mode_var := v\<rparr>" "\<lambda>v. v \<noteq> ''default''"
        "''--permission-mode''" "\<lambda>v. v" "permission_mode_var c" c, OF fr same assms(2) cnt] .
qed

lemma tools_piece_if:
  "\<exists>pre post. \<forall>v. build_command (c\<lparr>tools_text := v\<rparr>) =
      pre @ (if strip v \<noteq> [] then [''--tools'', strip v] else []) @ post"
proof -
  from tools_piece [of c] obtain pre post where
    tp: "\<And>v. build_command (c\<lparr>tools_text := v\<rparr>) = pre @ extend_if ''--tools'' (strip v) @ post"
    by blast
  have "\<forall>v. build_command (c\<lparr>tools_text := v\<rparr>) =
      pre @ (if strip v \<noteq> [] then [''--tools'', strip v] else []) @ post"
    unfolding tp extend_if_def by simp
  then show ?thesis
    by blast
qed

lemma tools_once:
  assumes "''--tools'' \<notin> set (user_tokens c)" and "strip (tools_text c) \<noteq> []"
  shows "\<exists>pre post. build_command c = pre @ [''--tools'', strip (tools_text c)] @ post
           \<and> ''--tools'' \<notin> set pre \<and> ''--tools'' \<notin> set post"
proof -
  have same: "c\<lparr>tools_text := tools_text c\<rparr> = c"
    by simp
  have cnt: "count_list (build_command c) ''--tools'' = 1"
    using count_tools [OF assms(1)] assms(2) by simp
  show ?thesis
    using pair_once [of "\<lambda>v. c\<lparr>tools_text := v\<rparr>" "\<lambda>v. strip v \<noteq> []"
        "''--tools''" "\<lambda>v. strip v" "tools_text c" c, OF tools_piece_if same assms(2) cnt] .
qed

lemma tools_collapse:
  assumes "strip v = []"
  shows "build_command (c\<lparr>tools_text := v\<rparr>) = build_command (c\<lparr>tools_text := []\<rparr>)"
proof -
  from tools_piece [of c] obtain pre post where
    tp: "\<And>v. build_command (c\<lparr>tools_text := v\<rparr>) = pre @ extend_if ''--tools'' (strip v) @ post"
    by blast
  have e: "strip [] = []"
    by (simp add: strip_def)
  show ?thesis
    unfolding tp assms e ..
qed

lemma user_tokens_json_chrome:
  "user_tokens json_chrome_config =
     [''claude'', ''opus'', [], [], [], [], [], [], [], [], [], [], ''text'', ''json'', [], [],
      ''default'', [], [], [], [], [], [], ''hello'']"
  by (simp add: user_tokens_def json_chrome_config_def scenario_A_def unset_config_def
      strip_newline)

lemma user_tokens_tools_list:
  "user_tokens tools_list_config =
     [''claude'', ''opus'', [], [], [], [], [], ''Bash,Edit'', [], [], [], [], ''text'',
      ''text'', [], [], ''default'', [], [], [], [], [], [], ''hello'']"
  by (simp add: user_tokens_def tools_list_config_def scenario_A_def unset_config_def
      strip_def isspace_def)


text \<open>
  C2. Input format, output format and permission mode: as long as no text of the user
  is itself the flag, the flag does not occur in the vector when the field is at its
  default (\<open>text\<close>, \<open>text\<close>, \<open>default\<close>) and occurs exactly once, immediately followed
  by the value of the field, at every other value. Chrome integration: as long as no text
  of the user is itself the flag, \<open>--chrome\<close> occurs once at \<open>enabled\<close> and not at all
  otherwise, and \<open>--no-chrome\<close> occurs once at \<open>disabled\<close> and not at all otherwise, so
  that at \<open>default\<close> neither occurs. With the rest of the configuration fixed, the
  vector is a fixed prefix and a fixed suffix around the piece of the field.
\<close>

theorem default_values_emit_no_flag:
  "(''--input-format'' \<notin> set (user_tokens c) \<longrightarrow>
      count_list (build_command c) ''--input-format''
        = (if input_format_var c = ''text'' then 0 else 1)
      \<and> (input_format_var c \<noteq> ''text'' \<longrightarrow>
           (\<exists>pre post. build_command c = pre @ [''--input-format'', input_format_var c] @ post
              \<and> ''--input-format'' \<notin> set pre \<and> ''--input-format'' \<notin> set post)))
   \<and> (''--output-format'' \<notin> set (user_tokens c) \<longrightarrow>
      count_list (build_command c) ''--output-format''
        = (if output_format_var c = ''text'' then 0 else 1)
      \<and> (output_format_var c \<noteq> ''text'' \<longrightarrow>
           (\<exists>pre post. build_command c = pre @ [''--output-format'', output_format_var c] @ post
              \<and> ''--output-format'' \<notin> set pre \<and> ''--output-format'' \<notin> set post)))
   \<and> (''--permission-mode'' \<notin> set (user_tokens c) \<longrightarrow>
      count_list (build_command c) ''--permission-mode''
        = (if permission_mode_var c = ''default'' then 0 else 1)
      \<and> (permission_mode_var c \<noteq> ''default'' \<longrightarrow>
           (\<exists>pre post. build_command c
                = pre @ [''--permission-mode'', permission_mode_var c] @ post
              \<and> ''--permission-mode'' \<notin> set pre \<and> ''--permission-mode'' \<notin> set post)))
   \<and> (''--chrome'' \<notin> set (user_tokens c) \<longrightarrow>
      count_list (build_command c) ''--chrome''
        = (if chrome_var c = ''enabled'' then 1 else 0))
   \<and> (''--no-chrome'' \<notin> set (user_tokens c) \<longrightarrow>
      count_list (build_command c) ''--no-chrome''
        = (if chrome_var c = ''disabled'' then 1 else 0))
   \<and> (\<exists>pre post. \<forall>v. build_command (c\<lparr>input_format_var := v\<rparr>) =
       pre @ (if v \<noteq> ''text'' then [''--input-format'', v] else []) @ post)
   \<and> (\<exists>pre post. \<forall>v. build_command (c\<lparr>output_format_var := v\<rparr>) =
       pre @ (if v \<noteq> ''text'' then [''--output-format'', v] else []) @ post)
   \<and> (\<exists>pre post. \<forall>v. build_command (c\<lparr>permission_mode_var := v\<rparr>) =
       pre @ (if v \<noteq> ''default'' then [''--permission-mode'', v] else []) @ post)
   \<and> (\<exists>pre post.
       build_command (c\<lparr>chrome_var := ''default''\<rparr>) = pre @ post \<and>
       build_command (c\<lparr>chrome_var := ''enabled''\<rparr>) = pre @ [''--chrome''] @ post \<and>
       build_command (c\<lparr>chrome_var := ''disabled''\<rparr>) = pre @ [''--no-chrome''] @ post)"
proof (intro conjI impI)
  assume "''--input-format'' \<notin> set (user_tokens c)"
  then show "count_list (build_command c) ''--input-format''
        = (if input_format_var c = ''text'' then 0 else 1)"
    by (rule count_input_format)
next
  assume "''--input-format'' \<notin> set (user_tokens c)" "input_format_var c \<noteq> ''text''"
  then show "\<exists>pre post. build_command c = pre @ [''--input-format'', input_format_var c] @ post
              \<and> ''--input-format'' \<notin> set pre \<and> ''--input-format'' \<notin> set post"
    by (rule input_once)
next
  assume "''--output-format'' \<notin> set (user_tokens c)"
  then show "count_list (build_command c) ''--output-format''
        = (if output_format_var c = ''text'' then 0 else 1)"
    by (rule count_output_format)
next
  assume "''--output-format'' \<notin> set (user_tokens c)" "output_format_var c \<noteq> ''text''"
  then show "\<exists>pre post. build_command c = pre @ [''--output-format'', output_format_var c] @ post
              \<and> ''--output-format'' \<notin> set pre \<and> ''--output-format'' \<notin> set post"
    by (rule output_once)
next
  assume "''--permission-mode'' \<notin> set (user_tokens c)"
  then show "count_list (build_command c) ''--permission-mode''
        = (if permission_mode_var c = ''default'' then 0 else 1)"
    by (rule count_permission_mode)
next
  assume "''--permission-mode'' \<notin> set (user_tokens c)" "permission_mode_var c \<noteq> ''default''"
  then show "\<exists>pre post. build_command c
                = pre @ [''--permission-mode'', permission_mode_var c] @ post
              \<and> ''--permission-mode'' \<notin> set pre \<and> ''--permission-mode'' \<notin> set post"
    by (rule permission_once)
next
  assume "''--chrome'' \<notin> set (user_tokens c)"
  then show "count_list (build_command c) ''--chrome''
        = (if chrome_var c = ''enabled'' then 1 else 0)"
    by (rule count_chrome_flag)
next
  assume "''--no-chrome'' \<notin> set (user_tokens c)"
  then show "count_list (build_command c) ''--no-chrome''
        = (if chrome_var c = ''disabled'' then 1 else 0)"
    by (rule count_no_chrome_flag)
next
  show "\<exists>pre post. \<forall>v. build_command (c\<lparr>input_format_var := v\<rparr>) =
          pre @ (if v \<noteq> ''text'' then [''--input-format'', v] else []) @ post"
    by (rule input_format_piece)
next
  show "\<exists>pre post. \<forall>v. build_command (c\<lparr>output_format_var := v\<rparr>) =
          pre @ (if v \<noteq> ''text'' then [''--output-format'', v] else []) @ post"
    by (rule output_format_piece)
next
  show "\<exists>pre post. \<forall>v. build_command (c\<lparr>permission_mode_var := v\<rparr>) =
          pre @ (if v \<noteq> ''default'' then [''--permission-mode'', v] else []) @ post"
    by (rule permission_mode_piece)
next
  from chrome_piece [of c] obtain pre post where
    ch: "\<And>v. build_command (c\<lparr>chrome_var := v\<rparr>) =
      pre @ (if v = ''enabled'' then [''--chrome'']
             else if v = ''disabled'' then [''--no-chrome''] else []) @ post"
    by blast
  have "build_command (c\<lparr>chrome_var := ''default''\<rparr>) = pre @ post"
    using ch [of "''default''"] by simp
  moreover have "build_command (c\<lparr>chrome_var := ''enabled''\<rparr>) = pre @ [''--chrome''] @ post"
    using ch [of "''enabled''"] by simp
  moreover have "build_command (c\<lparr>chrome_var := ''disabled''\<rparr>) = pre @ [''--no-chrome''] @ post"
    using ch [of "''disabled''"] by simp
  ultimately show "\<exists>pre post.
       build_command (c\<lparr>chrome_var := ''default''\<rparr>) = pre @ post \<and>
       build_command (c\<lparr>chrome_var := ''enabled''\<rparr>) = pre @ [''--chrome''] @ post \<and>
       build_command (c\<lparr>chrome_var := ''disabled''\<rparr>) = pre @ [''--no-chrome''] @ post"
    by blast
qed

theorem default_values_emit_no_flag_witness:
  "''--input-format'' \<notin> set (user_tokens json_chrome_config)
   \<and> ''--output-format'' \<notin> set (user_tokens json_chrome_config)
   \<and> ''--permission-mode'' \<notin> set (user_tokens json_chrome_config)
   \<and> ''--chrome'' \<notin> set (user_tokens json_chrome_config)
   \<and> ''--no-chrome'' \<notin> set (user_tokens json_chrome_config)
   \<and> output_format_var json_chrome_config \<noteq> ''text''
   \<and> count_list (build_command json_chrome_config) ''--input-format'' = 0
   \<and> count_list (build_command json_chrome_config) ''--output-format'' = 1
   \<and> count_list (build_command json_chrome_config) ''--permission-mode'' = 0
   \<and> count_list (build_command json_chrome_config) ''--chrome'' = 1
   \<and> count_list (build_command json_chrome_config) ''--no-chrome'' = 0
   \<and> (\<exists>pre post. build_command json_chrome_config = pre @ [''--output-format'', ''json''] @ post
          \<and> ''--output-format'' \<notin> set pre \<and> ''--output-format'' \<notin> set post)"
proof -
  have h: "''--input-format'' \<notin> set (user_tokens json_chrome_config)"
    "''--output-format'' \<notin> set (user_tokens json_chrome_config)"
    "''--permission-mode'' \<notin> set (user_tokens json_chrome_config)"
    "''--chrome'' \<notin> set (user_tokens json_chrome_config)"
    "''--no-chrome'' \<notin> set (user_tokens json_chrome_config)"
    unfolding user_tokens_json_chrome by simp_all
  have v: "input_format_var json_chrome_config = ''text''"
    "output_format_var json_chrome_config = ''json''"
    "permission_mode_var json_chrome_config = ''default''"
    "chrome_var json_chrome_config = ''enabled''"
    by (simp_all add: json_chrome_config_def scenario_A_def unset_config_def)
  show ?thesis
    using default_values_emit_no_flag [of json_chrome_config] h
    unfolding v by simp
qed


text \<open>
  C3. Scenario A: with only the model \<open>opus\<close>, the prompt \<open>hello\<close> and the executable
  path \<open>claude\<close> set, \<open>_build_command\<close> returns \<open>["claude", "--model", "opus", "hello"]\<close>.
\<close>

theorem scenario_A_vector:
  "build_command scenario_A = [''claude'', ''--model'', ''opus'', ''hello'']"
  by (simp add: build_command_def scenario_A_def unset_config_def extend_if_def
      append_if_def extend_each_def setting_sources_def strip_newline)

text \<open>
  The rule of the tools field. As long as no text of the user is itself \<open>--tools\<close>,
  the flag occurs in the vector exactly once, immediately followed by the trimmed tools
  text, when that text is not empty, and does not occur when it is empty. Every tools
  text that is empty after trimming gives the vector of the empty text, so \<open>--tools\<close>
  is never followed by an empty value of the field.
\<close>

theorem tools_flag_iff_text_non_empty:
  "(''--tools'' \<notin> set (user_tokens c) \<longrightarrow>
      count_list (build_command c) ''--tools''
        = (if strip (tools_text c) = [] then 0 else 1)
      \<and> (strip (tools_text c) \<noteq> [] \<longrightarrow>
           (\<exists>pre post. build_command c = pre @ [''--tools'', strip (tools_text c)] @ post
              \<and> ''--tools'' \<notin> set pre \<and> ''--tools'' \<notin> set post)))
   \<and> (\<forall>v. strip v = [] \<longrightarrow>
         build_command (c\<lparr>tools_text := v\<rparr>) = build_command (c\<lparr>tools_text := []\<rparr>))
   \<and> (\<exists>pre post. \<forall>v. build_command (c\<lparr>tools_text := v\<rparr>) =
         pre @ (if strip v \<noteq> [] then [''--tools'', strip v] else []) @ post)"
proof (intro conjI impI allI)
  assume "''--tools'' \<notin> set (user_tokens c)"
  then show "count_list (build_command c) ''--tools''
        = (if strip (tools_text c) = [] then 0 else 1)"
    by (rule count_tools)
next
  assume "''--tools'' \<notin> set (user_tokens c)" "strip (tools_text c) \<noteq> []"
  then show "\<exists>pre post. build_command c = pre @ [''--tools'', strip (tools_text c)] @ post
              \<and> ''--tools'' \<notin> set pre \<and> ''--tools'' \<notin> set post"
    by (rule tools_once)
next
  fix v :: string
  assume "strip v = []"
  then show "build_command (c\<lparr>tools_text := v\<rparr>) = build_command (c\<lparr>tools_text := []\<rparr>)"
    by (rule tools_collapse)
next
  show "\<exists>pre post. \<forall>v. build_command (c\<lparr>tools_text := v\<rparr>) =
         pre @ (if strip v \<noteq> [] then [''--tools'', strip v] else []) @ post"
    by (rule tools_piece_if)
qed

theorem tools_flag_iff_text_non_empty_witness:
  "''--tools'' \<notin> set (user_tokens tools_list_config)
   \<and> strip (tools_text tools_list_config) \<noteq> []
   \<and> strip [CHR 0x0A] = []
   \<and> count_list (build_command tools_list_config) ''--tools'' = 1
   \<and> (\<exists>pre post. build_command tools_list_config = pre @ [''--tools'', ''Bash,Edit''] @ post
          \<and> ''--tools'' \<notin> set pre \<and> ''--tools'' \<notin> set post)
   \<and> build_command (tools_list_config\<lparr>tools_text := [CHR 0x0A]\<rparr>)
       = build_command (tools_list_config\<lparr>tools_text := []\<rparr>)"
proof -
  have h: "''--tools'' \<notin> set (user_tokens tools_list_config)"
    unfolding user_tokens_tools_list by simp
  have s: "strip (tools_text tools_list_config) = ''Bash,Edit''"
    by (simp add: tools_list_config_def strip_def isspace_def)
  show ?thesis
    using tools_flag_iff_text_non_empty [of tools_list_config] h strip_newline
    unfolding s by simp
qed


text \<open>
  C9. When the executable path field is empty, the first token of the vector is the
  default program name \<open>claude\<close>; in every configuration the vector has a first token
  and that token is not empty.
\<close>

theorem first_token_never_empty:
  "(\<exists>rest. build_command (c\<lparr>claude_path_var := []\<rparr>) = ''claude'' # rest) \<and>
   (\<exists>t rest. build_command c = t # rest \<and> t \<noteq> [])"
  by (simp add: build_command_def)

section \<open>Properties of \<open>_quote_arg\<close>\<close>

lemma DQ_neq_BS: "DQ \<noteq> BS"
  by (simp add: DQ_def BS_def)

lemma shlex_safe_literal:
  "shlex_safe ch \<Longrightarrow>
   ch \<noteq> SQ \<and> ch \<noteq> DQ \<and> ch \<noteq> BS \<and> ch \<noteq> CHR '' '' \<and> ch \<noteq> TAB \<and> \<not> sh_special ch"
  by (auto simp: shlex_safe_def SQ_def DQ_def BS_def TAB_def sh_special_def NL_def)

lemma sh_split_safe:
  "list_all shlex_safe s \<Longrightarrow> sh_split Plain (Some w) s = Some [w @ s]"
proof (induction s arbitrary: w)
  case Nil
  then show ?case by simp
next
  case (Cons ch s)
  then have "shlex_safe ch" and "list_all shlex_safe s"
    by simp_all
  with Cons.IH [of "w @ [ch]"] shlex_safe_literal [of ch] show ?case
    by (simp add: word_of_def)
qed

lemma sh_split_single:
  "sh_split Single (Some w) (replace_char SQ [SQ, DQ, SQ, DQ, SQ] s @ [SQ]) = Some [w @ s]"
proof (induction s arbitrary: w)
  case Nil
  then show ?case by (simp add: replace_char_def)
next
  case (Cons ch s)
  have ne: "SQ \<noteq> DQ" "SQ \<noteq> BS" "SQ \<noteq> CHR ''$''" "SQ \<noteq> CHR ''`''"
    by (simp_all add: SQ_def DQ_def BS_def)
  show ?case
  proof (cases "ch = SQ")
    case True
    then show ?thesis
      using Cons.IH [of "w @ [SQ]"] ne
      by (simp add: replace_char_def word_of_def)
  next
    case False
    then show ?thesis
      using Cons.IH [of "w @ [ch]"]
      by (simp add: replace_char_def word_of_def)
  qed
qed

lemma shlex_quote_round_trip: "sh_split Plain None (shlex_quote t) = Some [t]"
proof (cases "t = []")
  case True
  then show ?thesis
    by (simp add: shlex_quote_def word_of_def)
next
  case False
  show ?thesis
  proof (cases "list_all shlex_safe t")
    case True
    then obtain ch s where t: "t = ch # s" "shlex_safe ch" "list_all shlex_safe s"
      using False by (cases t) auto
    then show ?thesis
      using shlex_safe_literal [of ch] sh_split_safe [of s "[ch]"] False True
      by (simp add: shlex_quote_def word_of_def)
  next
    case unsafe: False
    then show ?thesis
      using False sh_split_single [of "[]" t]
      by (simp add: shlex_quote_def word_of_def)
  qed
qed

text \<open>
  On a platform other than Windows the round trip holds for every token: the POSIX
  reader turns the quoted token back into exactly that token.
\<close>

lemma posix_round_trip:
  assumes "platform \<noteq> ''win32''"
  shows "sh_split Plain None (quote_arg platform t) = Some [t]"
proof -
  from assms have "quote_arg platform t = shlex_quote t"
    by (simp add: quote_arg_def shlex_quote_def)
  then show ?thesis
    by (simp add: shlex_quote_round_trip)
qed

lemma win_split_quoted:
  "BS \<notin> set s \<Longrightarrow>
   win_split True 0 (Some w) (replace_char DQ [BS, DQ] s @ [DQ]) = [w @ s]"
proof (induction s arbitrary: w)
  case Nil
  then show ?case
    using DQ_neq_BS by (simp add: replace_char_def word_of_def)
next
  case (Cons ch s)
  from Cons.prems have ch: "ch \<noteq> BS" and s: "BS \<notin> set s"
    by auto
  show ?case
  proof (cases "ch = DQ")
    case True
    then show ?thesis
      using Cons.IH [OF s, of "w @ [DQ]"] DQ_neq_BS
      by (simp add: replace_char_def word_of_def)
  next
    case False
    then show ?thesis
      using Cons.IH [OF s, of "w @ [ch]"] ch
      by (simp add: replace_char_def word_of_def)
  qed
qed

lemma win_split_plain:
  "BS \<notin> set s \<Longrightarrow> DQ \<notin> set s \<Longrightarrow> CHR '' '' \<notin> set s \<Longrightarrow> TAB \<notin> set s \<Longrightarrow>
   win_split False 0 cur s = (if cur = None \<and> s = [] then [] else [word_of cur @ s])"
proof (induction s arbitrary: cur)
  case Nil
  then show ?case by simp
next
  case (Cons ch s)
  from Cons.prems have ch: "ch \<noteq> BS" "ch \<noteq> DQ" "ch \<noteq> CHR '' ''" "ch \<noteq> TAB"
    and s: "BS \<notin> set s" "DQ \<notin> set s" "CHR '' '' \<notin> set s" "TAB \<notin> set s"
    by auto
  show ?case
    using Cons.IH [OF s, of "Some (word_of cur @ [ch])"] ch
    by (simp add: word_of_def)
qed

text \<open>
  On Windows the round trip holds for every token without a backslash.
\<close>

lemma win_round_trip_without_backslash:
  assumes "BS \<notin> set t"
  shows "win_split False 0 None (quote_arg ''win32'' t) = [t]"
proof (cases "t = []")
  case True
  then show ?thesis
    using DQ_neq_BS by (simp add: quote_arg_def word_of_def)
next
  case False
  show ?thesis
  proof (cases "CHR '' '' \<in> set t \<or> DQ \<in> set t \<or> TAB \<in> set t \<or> NL \<in> set t
            \<or> list_ex (\<lambda>ch. ch \<in> set t) ''&|<>^''")
    case True
    then have "quote_arg ''win32'' t = [DQ] @ replace_char DQ [BS, DQ] t @ [DQ]"
      using False by (simp add: quote_arg_def)
    then show ?thesis
      using win_split_quoted [OF assms, of "[]"] DQ_neq_BS
      by (simp add: word_of_def)
  next
    case bare: False
    then have q: "quote_arg ''win32'' t = t"
      using False by (simp add: quote_arg_def)
    from bare have "DQ \<notin> set t" "CHR '' '' \<notin> set t" "TAB \<notin> set t"
      by auto
    with win_split_plain [OF assms, of None] False show ?thesis
      by (simp add: q word_of_def)
  qed
qed

text \<open>
  C4. The round trip fails on Windows. For the directory path \<open>C:\a b\\<close>,
  \<open>_quote_arg\<close> returns \<open>"C:\a b\"\<close>: the backslash is left as it is, so it stands
  before the closing quote. The Windows argument rules read that pair as a literal double
  quote, and the token read back is \<open>C:\a b"\<close>, not the original one.
\<close>

theorem win32_round_trip_fails:
  "quote_arg ''win32'' win_dir_token = [DQ] @ win_dir_token @ [DQ] \<and>
   win_split False 0 None (quote_arg ''win32'' win_dir_token)
     = [[CHR ''C'', CHR '':'', BS, CHR ''a'', CHR '' '', CHR ''b'', DQ]] \<and>
   win_split False 0 None (quote_arg ''win32'' win_dir_token) \<noteq> [win_dir_token]"
  by (simp add: quote_arg_def win_dir_token_def replace_char_def word_of_def
      BS_def DQ_def TAB_def NL_def)

section \<open>Properties of the launcher\<close>

lemma working_dir_scenario_A: "working_dir_of env_no_terminal scenario_A = ''/home/user''"
  by (simp add: working_dir_of_def scenario_A_def unset_config_def strip_def
      env_no_terminal_def)

lemma unavailable_no_terminal:
  "list_all (unavailable env_no_terminal) (launchers (sys_platform env_no_terminal) s)"
  by (simp add: unavailable_def launchers_def resolves_def startswith_slash_def
      env_no_terminal_def)

lemma unavailable_spawn_fails:
  "list_all (unavailable env_spawn_fails) (launchers (sys_platform env_spawn_fails) s)"
  by (simp add: unavailable_def launchers_def resolves_def startswith_slash_def
      env_no_terminal_def env_spawn_fails_def)

text \<open>
  When every candidate is unavailable the loop ends without a terminal; all it leaves
  behind is the log of the starts it tried.
\<close>

lemma try_launchers_exhausted:
  "list_all (unavailable e) ls \<Longrightarrow>
   \<exists>cs. try_launchers e ls w = (Exhausted, w\<lparr>calls := calls w @ cs\<rparr>)
        \<and> list_all (\<lambda>k. \<exists>argv. k = Call_popen argv) cs"
proof (induction ls arbitrary: w)
  case Nil
  have "try_launchers e [] w = (Exhausted, w\<lparr>calls := calls w @ []\<rparr>)"
    by simp
  moreover have "list_all (\<lambda>k. \<exists>argv. k = Call_popen argv) []"
    by simp
  ultimately show ?case
    by blast
next
  case (Cons argv ls)
  then have un: "unavailable e argv" and rest: "list_all (unavailable e) ls"
    by simp_all
  from un obtain name args where argv: "argv = name # args"
    by (cases argv) (auto simp: unavailable_def)
  show ?case
  proof (cases "resolves e name")
    case False
    with Cons.IH [OF rest, of w] argv show ?thesis
      by simp
  next
    case True
    with un argv obtain x where x: "popen_error e argv None = Some x" "is_OSError x"
      by (auto simp: unavailable_def split: option.splits)
    let ?w1 = "log_call (Call_popen argv) w"
    from Cons.IH [OF rest, of ?w1] obtain cs where
      cs: "try_launchers e ls ?w1 = (Exhausted, ?w1\<lparr>calls := calls ?w1 @ cs\<rparr>)"
        "list_all (\<lambda>k. \<exists>argv. k = Call_popen argv) cs"
      by blast
    have "try_launchers e (argv # ls) w =
            (Exhausted, w\<lparr>calls := calls w @ (Call_popen argv # cs)\<rparr>)"
      using True x cs(1) argv by (simp add: popen_def log_call_def)
    moreover have "list_all (\<lambda>k. \<exists>argv. k = Call_popen argv) (Call_popen argv # cs)"
      using cs(2) by simp
    ultimately show ?thesis
      by blast
  qed
qed

text \<open>Staging when nothing fails: the script is written, closed and made executable.\<close>

lemma stage_script_succeeds:
  assumes "mkstemp_result e = Inr (fd, p)"
    and "\<not> write_fails e" "\<not> close_fails e" "\<not> chmod_fails e"
    and "mkstemp e w = (Inr (fd, p), w1)"
  shows "stage_script e fd p content w1 =
       (Inr (), w\<lparr>files := (files w)(p \<mapsto> (content, 448)), fds := (fds w)(fd := None),
                  calls := calls w @ [Call_mkstemp, Call_write fd, Call_close fd,
                                      Call_chmod p]\<rparr>)"
  using assms
  by (auto simp: mkstemp_def stage_script_def write_script_def os_write_def os_close_def
      os_chmod_def log_call_def)

lemma launch_claude_unix_falls_back:
  assumes mk: "mkstemp_result e = Inr (fd, script)"
    and ok: "\<not> write_fails e" "\<not> close_fails e" "\<not> chmod_fails e"
    and un: "list_all (unavailable e) (launchers (sys_platform e) script)"
  shows "\<exists>cs. launch_claude_unix e cmd wd w =
           fallback e cmd wd script
             (w\<lparr>files := (files w)(script \<mapsto> (script_content wd cmd script, 448)),
                fds := (fds w)(fd := None),
                calls := calls w @ [Call_mkstemp, Call_write fd, Call_close fd,
                                    Call_chmod script] @ cs\<rparr>)"
proof -
  let ?w2 = "w\<lparr>files := (files w)(script \<mapsto> (script_content wd cmd script, 448)),
               fds := (fds w)(fd := None),
               calls := calls w @ [Call_mkstemp, Call_write fd, Call_close fd,
                                   Call_chmod script]\<rparr>"
  obtain w1 where w1: "mkstemp e w = (Inr (fd, script), w1)"
    using mk by (simp add: mkstemp_def)
  have st: "stage_script e fd script (script_content wd cmd script) w1 = (Inr (), ?w2)"
    using stage_script_succeeds [OF mk ok w1] .
  from try_launchers_exhausted [OF un, of ?w2] obtain cs where
    cs: "try_launchers e (launchers (sys_platform e) script) ?w2 =
           (Exhausted, ?w2\<lparr>calls := calls ?w2 @ cs\<rparr>)"
    by blast
  have "launch_claude_unix e cmd wd w =
          fallback e cmd wd script (?w2\<lparr>calls := calls ?w2 @ cs\<rparr>)"
    by (simp add: launch_claude_unix_def w1 st cs)
  then show ?thesis
    by auto
qed

text \<open>
  C6. When the working directory of the request is not an existing directory,
  \<open>_launch_claude\<close> shows the error box for it and does nothing else: no call to the
  operating system is made (no temporary file, no process start), and the files, the
  open descriptors and the child processes are what they were.
\<close>

theorem invalid_working_dir_no_effects:
  assumes "\<not> isdir e (working_dir_of e c)"
  shows "dialogs (launch_claude e c w) =
           dialogs w @ [Showerror ''Error''
             (''Working directory does not exist: '' @ working_dir_of e c)]
         \<and> calls (launch_claude e c w) = calls w
         \<and> files (launch_claude e c w) = files w
         \<and> fds (launch_claude e c w) = fds w
         \<and> procs (launch_claude e c w) = procs w"
  using assms by (simp add: launch_claude_def showerror_def)

theorem invalid_working_dir_no_effects_witness:
  "\<not> isdir env_no_terminal
       (working_dir_of env_no_terminal (scenario_A\<lparr>working_dir_var := ''/missing''\<rparr>))
   \<and> calls (launch_claude env_no_terminal
         (scenario_A\<lparr>working_dir_var := ''/missing''\<rparr>) world0) = []
   \<and> procs (launch_claude env_no_terminal
         (scenario_A\<lparr>working_dir_var := ''/missing''\<rparr>) world0) = []
   \<and> dialogs (launch_claude env_no_terminal
         (scenario_A\<lparr>working_dir_var := ''/missing''\<rparr>) world0)
       = [Showerror ''Error'' ''Working directory does not exist: /missing'']"
proof -
  have wd: "working_dir_of env_no_terminal (scenario_A\<lparr>working_dir_var := ''/missing''\<rparr>)
      = ''/missing''"
    by (simp add: working_dir_of_def strip_def isspace_def)
  have h: "\<not> isdir env_no_terminal
       (working_dir_of env_no_terminal (scenario_A\<lparr>working_dir_var := ''/missing''\<rparr>))"
    unfolding wd by (simp add: env_no_terminal_def)
  show ?thesis
    using invalid_working_dir_no_effects [OF h, of world0] h
    by (simp add: wd world0_def)
qed

text \<open>
  C7. On a platform other than Windows, with a valid working directory and a script that
  was staged without error: when every candidate of the loop is unavailable and the
  direct start of the command succeeds, the command is started as a child process in the
  working directory, in a new session; the launcher calls \<open>os.remove\<close> on the script
  and, when that call does not fail, the script is no longer on disk; the user is shown
  the notice that no terminal was found to show output (followed by the box that
  \<open>_launch_claude\<close> shows after every launch that raised nothing).
\<close>

theorem no_terminal_background:
  assumes px: "sys_platform e \<noteq> ''win32''"
    and dir: "isdir e (working_dir_of e c)"
    and mk: "mkstemp_result e = Inr (fd, script)"
    and ok: "\<not> write_fails e" "\<not> close_fails e" "\<not> chmod_fails e"
    and un: "list_all (unavailable e) (launchers (sys_platform e) script)"
    and sp: "popen_error e (build_command c) (Some (working_dir_of e c)) = None"
  shows "procs (launch_claude e c w) =
           procs w @ [Proc (build_command c) (Some (working_dir_of e c)) Start_new_session]
         \<and> Call_remove script \<in> set (calls (launch_claude e c w))
         \<and> (\<not> remove_fails e \<longrightarrow> files (launch_claude e c w) script = None)
         \<and> dialogs (launch_claude e c w) =
             dialogs w @ [Showinfo ''Launched in background'' background_notice,
                          Showinfo ''Launched''
                            ''Claude CLI has been launched in a new window!'']"
proof -
  from launch_claude_unix_falls_back [OF mk ok un, of "build_command c" "working_dir_of e c" w]
  obtain cs where
    u: "launch_claude_unix e (build_command c) (working_dir_of e c) w =
          fallback e (build_command c) (working_dir_of e c) script
            (w\<lparr>files := (files w)(script \<mapsto>
                   (script_content (working_dir_of e c) (build_command c) script, 448)),
               fds := (fds w)(fd := None),
               calls := calls w @ [Call_mkstemp, Call_write fd, Call_close fd,
                                   Call_chmod script] @ cs\<rparr>)"
    by blast
  show ?thesis
    using px dir sp
    by (simp add: launch_claude_def u fallback_def popen_def os_remove_def log_call_def
        showinfo_def)
qed

theorem no_terminal_background_witness:
  "sys_platform env_no_terminal \<noteq> ''win32''
   \<and> isdir env_no_terminal (working_dir_of env_no_terminal scenario_A)
   \<and> mkstemp_result env_no_terminal = Inr (3, ''/tmp/claude_gui_k3x9.sh'')
   \<and> \<not> write_fails env_no_terminal \<and> \<not> close_fails env_no_terminal
   \<and> \<not> chmod_fails env_no_terminal \<and> \<not> remove_fails env_no_terminal
   \<and> list_all (unavailable env_no_terminal)
        (launchers (sys_platform env_no_terminal) ''/tmp/claude_gui_k3x9.sh'')
   \<and> popen_error env_no_terminal (build_command scenario_A)
        (Some (working_dir_of env_no_terminal scenario_A)) = None
   \<and> procs (launch_claude env_no_terminal scenario_A world0) =
        [Proc [''claude'', ''--model'', ''opus'', ''hello''] (Some ''/home/user'')
           Start_new_session]
   \<and> files (launch_claude env_no_terminal scenario_A world0) ''/tmp/claude_gui_k3x9.sh''
        = None
   \<and> dialogs (launch_claude env_no_terminal scenario_A world0) =
        [Showinfo ''Launched in background'' background_notice,
         Showinfo ''Launched'' ''Claude CLI has been launched in a new window!'']"
proof -
  have h1: "sys_platform env_no_terminal \<noteq> ''win32''"
    by (simp add: env_no_terminal_def)
  have h2: "isdir env_no_terminal (working_dir_of env_no_terminal scenario_A)"
    unfolding working_dir_scenario_A by (simp add: env_no_terminal_def)
  have h3: "mkstemp_result env_no_terminal = Inr (3, ''/tmp/claude_gui_k3x9.sh'')"
    by (simp add: env_no_terminal_def)
  have h4: "\<not> write_fails env_no_terminal" "\<not> close_fails env_no_terminal"
    "\<not> chmod_fails env_no_terminal"
    by (simp_all add: env_no_terminal_def)
  have h5: "\<not> remove_fails env_no_terminal"
    by (simp add: env_no_terminal_def)
  have h6: "list_all (unavailable env_no_terminal)
        (launchers (sys_platform env_no_terminal) ''/tmp/claude_gui_k3x9.sh'')"
    by (rule unavailable_no_terminal)
  have h7: "popen_error env_no_terminal (build_command scenario_A)
        (Some (working_dir_of env_no_terminal scenario_A)) = None"
    by (simp add: env_no_terminal_def)
  have bc: "build_command scenario_A = [''claude'', ''--model'', ''opus'', ''hello'']"
    by (simp add: build_command_def scenario_A_def unset_config_def extend_if_def
      append_if_def extend_each_def setting_sources_def strip_newline)
  show ?thesis
    using no_terminal_background [OF h1 h2 h3 h4 h6 h7, of world0]
      h1 h2 h3 h4 h5 h6 h7
    by (simp add: bc working_dir_scenario_A world0_def)
qed

text \<open>
  What the staging handler does on each failure. When \<open>os.write\<close> fails, the handler
  closes the descriptor, removes the script and the error goes on to the caller. When
  \<open>os.close\<close> or \<open>os.chmod\<close> fails, the descriptor is closed already: the handler's own
  \<open>os.close(fd)\<close> raises \<open>EBADF\<close>, the handler is left before \<open>os.remove\<close>, and the
  script stays on disk.
\<close>

lemma write_failure_removes_script:
  assumes "mkstemp_result e = Inr (fd, script)"
    and "write_fails e" "\<not> close_fails e" "\<not> remove_fails e"
  shows "launch_claude_unix e cmd wd w =
     (Inl (OSError ''write failed''),
      w\<lparr>files := (files w)(script := None),
        fds := (fds w)(fd := None),
        calls := calls w @ [Call_mkstemp, Call_write fd, Call_close fd,
                            Call_remove script]\<rparr>)"
  using assms
  by (simp add: launch_claude_unix_def mkstemp_def stage_script_def write_script_def
      os_write_def os_close_def os_remove_def log_call_def)

lemma close_failure_leaves_script:
  assumes "mkstemp_result e = Inr (fd, script)"
    and "\<not> write_fails e" "close_fails e"
  shows "launch_claude_unix e cmd wd w =
     (Inl (OSError EBADF),
      w\<lparr>files := (files w)(script \<mapsto> (script_content wd cmd script, 384)),
        fds := (fds w)(fd := None),
        calls := calls w @ [Call_mkstemp, Call_write fd, Call_close fd, Call_close fd]\<rparr>)"
  using assms
  by (simp add: launch_claude_unix_def mkstemp_def stage_script_def write_script_def
      os_write_def os_close_def os_chmod_def log_call_def)

lemma chmod_failure_leaves_script:
  assumes "mkstemp_result e = Inr (fd, script)"
    and "\<not> write_fails e" "\<not> close_fails e" "chmod_fails e"
  shows "launch_claude_unix e cmd wd w =
     (Inl (OSError EBADF),
      w\<lparr>files := (files w)(script \<mapsto> (script_content wd cmd script, 384)),
        fds := (fds w)(fd := None),
        calls := calls w @ [Call_mkstemp, Call_write fd, Call_close fd, Call_chmod script,
                            Call_close fd]\<rparr>)"
  using assms
  by (simp add: launch_claude_unix_def mkstemp_def stage_script_def write_script_def
      os_write_def os_close_def os_chmod_def log_call_def)

text \<open>
  C8. The cleanup is not attempted on every failure path of the staging. On the machine
  where \<open>os.chmod\<close> is refused, \<open>_launch_claude_unix\<close> ends with the \<open>EBADF\<close> error of
  the handler's second \<open>os.close(fd)\<close>; \<open>os.remove\<close> is never called, and the script,
  fully written, is still on disk.
\<close>

theorem chmod_refused_script_stays:
  "fst (launch_claude_unix env_chmod_refused [''claude''] ''/home/user'' world0)
     = Inl (OSError EBADF)
   \<and> files (snd (launch_claude_unix env_chmod_refused [''claude''] ''/home/user'' world0))
        ''/tmp/claude_gui_k3x9.sh''
     = Some (script_content ''/home/user'' [''claude''] ''/tmp/claude_gui_k3x9.sh'', 384)
   \<and> calls (snd (launch_claude_unix env_chmod_refused [''claude''] ''/home/user'' world0))
     = [Call_mkstemp, Call_write 3, Call_close 3, Call_chmod ''/tmp/claude_gui_k3x9.sh'',
        Call_close 3]"
  by (simp add: launch_claude_unix_def mkstemp_def stage_script_def write_script_def
      os_write_def os_close_def os_chmod_def log_call_def env_chmod_refused_def
      env_no_terminal_def world0_def)

text \<open>
  C10. In the fallback, when the direct start of the command raises an exception, that
  exception is what \<open>_launch_claude_unix\<close> ends with, and by then the launcher has
  called \<open>os.remove\<close> on the script: unless that call failed, the script is no longer on
  disk. No child process was started and no box was shown by \<open>_launch_claude_unix\<close>.
\<close>

theorem fallback_spawn_failure_removes_script:
  assumes mk: "mkstemp_result e = Inr (fd, script)"
    and ok: "\<not> write_fails e" "\<not> close_fails e" "\<not> chmod_fails e"
    and un: "list_all (unavailable e) (launchers (sys_platform e) script)"
    and sp: "popen_error e cmd (Some wd) = Some x"
  shows "fst (launch_claude_unix e cmd wd w) = Inl x
         \<and> Call_remove script \<in> set (calls (snd (launch_claude_unix e cmd wd w)))
         \<and> (\<not> remove_fails e \<longrightarrow> files (snd (launch_claude_unix e cmd wd w)) script = None)
         \<and> procs (snd (launch_claude_unix e cmd wd w)) = procs w
         \<and> dialogs (snd (launch_claude_unix e cmd wd w)) = dialogs w"
proof -
  from launch_claude_unix_falls_back [OF mk ok un, of cmd wd w]
  obtain cs where
    u: "launch_claude_unix e cmd wd w =
          fallback e cmd wd script
            (w\<lparr>files := (files w)(script \<mapsto> (script_content wd cmd script, 448)),
               fds := (fds w)(fd := None),
               calls := calls w @ [Call_mkstemp, Call_write fd, Call_close fd,
                                   Call_chmod script] @ cs\<rparr>)"
    by blast
  show ?thesis
    using sp
    by (simp add: u fallback_def popen_def os_remove_def log_call_def)
qed

theorem fallback_spawn_failure_removes_script_witness:
  "mkstemp_result env_spawn_fails = Inr (3, ''/tmp/claude_gui_k3x9.sh'')
   \<and> \<not> write_fails env_spawn_fails \<and> \<not> close_fails env_spawn_fails
   \<and> \<not> chmod_fails env_spawn_fails
   \<and> list_all (unavailable env_spawn_fails)
        (launchers (sys_platform env_spawn_fails) ''/tmp/claude_gui_k3x9.sh'')
   \<and> popen_error env_spawn_fails [''claude''] (Some ''/home/user'')
        = Some (FileNotFoundError ''claude'')
   \<and> \<not> remove_fails env_spawn_fails
   \<and> fst (launch_claude_unix env_spawn_fails [''claude''] ''/home/user'' world0)
        = Inl (FileNotFoundError ''claude'')
   \<and> files (snd (launch_claude_unix env_spawn_fails [''claude''] ''/home/user'' world0))
        ''/tmp/claude_gui_k3x9.sh'' = None"
proof -
  have h3: "mkstemp_result env_spawn_fails = Inr (3, ''/tmp/claude_gui_k3x9.sh'')"
    by (simp add: env_no_terminal_def env_spawn_fails_def)
  have h4: "\<not> write_fails env_spawn_fails" "\<not> close_fails env_spawn_fails"
    "\<not> chmod_fails env_spawn_fails"
    by (simp_all add: env_no_terminal_def env_spawn_fails_def)
  have h5: "\<not> remove_fails env_spawn_fails"
    by (simp add: env_no_terminal_def env_spawn_fails_def)
  have h6: "list_all (unavailable env_spawn_fails)
        (launchers (sys_platform env_spawn_fails) ''/tmp/claude_gui_k3x9.sh'')"
    by (rule unavailable_spawn_fails)
  have h7: "popen_error env_spawn_fails [''claude''] (Some ''/home/user'')
        = Some (FileNotFoundError ''claude'')"
    by (simp add: env_spawn_fails_def)
  show ?thesis
    using fallback_spawn_failure_removes_script [OF h3 h4 h6 h7, of world0]
      h3 h4 h5 h6 h7
    by simp
qed

end
